theory Spec2Isabelle
  imports Complex_Main "HOL-Library.Log_Nat"
begin

section \<open>Floating-point values\<close>

text \<open>
  The source computes on \<^verbatim>\<open>float\<close> (the coordinates of a \<^verbatim>\<open>cv::Point2f\<close>) and
  \<^verbatim>\<open>double\<close> values. Both are modelled by one type of IEEE-754 values: a finite number
  (\<open>Finite 0\<close> is the positive zero), the negative zero, the two infinities and
  not-a-number. The conversion from \<^verbatim>\<open>float\<close> to \<^verbatim>\<open>double\<close> is exact, hence the identity
  here. An arithmetic operation takes the format of its result (\<open>binary32\<close> for an
  operation on two \<^verbatim>\<open>float\<close>s, \<open>binary64\<close> for one on \<^verbatim>\<open>double\<close>s) and rounds the exact
  result to that format: to nearest, ties to even, with gradual underflow and overflow
  to an infinity. What the special values do (comparisons with a NaN are false, a
  nonzero number divided by a zero is an infinity, \<open>0/0\<close> and \<open>\<infinity> - \<infinity>\<close> are NaN, the sign
  of a zero) is written out.
\<close>

datatype double = Finite real | NegZero | PosInf | NegInf | NaN

fun isnan :: "double \<Rightarrow> bool" where
  "isnan NaN = True"
| "isnan _ = False"

fun isinf :: "double \<Rightarrow> bool" where
  "isinf PosInf = True"
| "isinf NegInf = True"
| "isinf _ = False"

fun is_zero :: "double \<Rightarrow> bool" where
  "is_zero (Finite r) = (r = 0)"
| "is_zero NegZero = True"
| "is_zero _ = False"

fun signbit :: "double \<Rightarrow> bool" where
  "signbit (Finite r) = (r < 0)"
| "signbit NegZero = True"
| "signbit PosInf = False"
| "signbit NegInf = True"
| "signbit NaN = False"

text \<open>The real number a finite value stands for (both zeros are 0).\<close>

fun valof :: "double \<Rightarrow> real" where
  "valof (Finite r) = r"
| "valof _ = 0"

definition zero_of :: "bool \<Rightarrow> double" where
  "zero_of negative = (if negative then NegZero else Finite 0)"

definition inf_of :: "bool \<Rightarrow> double" where
  "inf_of negative = (if negative then NegInf else PosInf)"

subsection \<open>Rounding\<close>

text \<open>
  A binary format: the number of bits of its significand and its largest exponent.
  The smallest exponent of a normal number is \<open>1 - emax\<close>.
\<close>

record format =
  precision :: nat
  emax :: int

definition binary32 :: format where
  "binary32 = \<lparr> precision = 24, emax = 127 \<rparr>"

definition binary64 :: format where
  "binary64 = \<lparr> precision = 53, emax = 1023 \<rparr>"

text \<open>
  The exponent \<open>k\<close> of a nonzero real: \<open>2^k \<le> |r| < 2^(k+1)\<close>, from the number of bits
  of an integer.
\<close>

definition exponent_of :: "real \<Rightarrow> int" where
  "exponent_of r =
     (if 1 \<le> \<bar>r\<bar> then bitlen \<lfloor>\<bar>r\<bar>\<rfloor> - 1 else - bitlen (\<lceil>1 / \<bar>r\<bar>\<rceil> - 1))"

text \<open>The nearest integer, the even one of two that are equally near.\<close>

definition round_half_even :: "real \<Rightarrow> int" where
  "round_half_even q =
     (let n = \<lfloor>q\<rfloor> in
      if q - of_int n < 1 / 2 then n
      else if 1 / 2 < q - of_int n then n + 1
      else if even n then n else n + 1)"

text \<open>
  The value of the format nearest to a real \<open>r\<close>. The unit in the last place is
  \<open>2^e\<close>, where \<open>e\<close> comes from the exponent of \<open>r\<close>, or from the smallest exponent for
  a subnormal result; a result of magnitude \<open>2^(emax + 1)\<close> or more is an infinity, and
  a result that rounds to nothing is a zero with the sign of \<open>r\<close>.
\<close>

definition round_to :: "format \<Rightarrow> real \<Rightarrow> double" where
  "round_to f r =
     (if r = 0 then Finite 0
      else
        (let e = max (exponent_of r) (1 - emax f) - (int (precision f) - 1);
             y = of_int (round_half_even (r / 2 powi e)) * 2 powi e
         in if 2 powi (emax f + 1) \<le> \<bar>y\<bar> then inf_of (r < 0)
            else if y = 0 then zero_of (r < 0)
            else Finite y))"

text \<open>
  A decimal literal of the source or a parsed parameter is the \<^verbatim>\<open>double\<close> nearest to
  it.
\<close>

definition double_of :: "real \<Rightarrow> double" where
  "double_of r = round_to binary64 r"

subsection \<open>Comparisons\<close>

text \<open>\<^verbatim>\<open>a < b\<close>: false when either side is a NaN; the two zeros are equal.\<close>

fun flt :: "double \<Rightarrow> double \<Rightarrow> bool" where
  "flt NaN _ = False"
| "flt _ NaN = False"
| "flt PosInf _ = False"
| "flt _ NegInf = False"
| "flt NegInf _ = True"
| "flt _ PosInf = True"
| "flt a b = (valof a < valof b)"

text \<open>\<^verbatim>\<open>a == b\<close>.\<close>

fun feq :: "double \<Rightarrow> double \<Rightarrow> bool" where
  "feq NaN _ = False"
| "feq _ NaN = False"
| "feq PosInf b = (b = PosInf)"
| "feq _ PosInf = False"
| "feq NegInf b = (b = NegInf)"
| "feq _ NegInf = False"
| "feq a b = (valof a = valof b)"

text \<open>\<^verbatim>\<open>a <= b\<close>, \<^verbatim>\<open>a > b\<close>, \<^verbatim>\<open>a >= b\<close>, \<^verbatim>\<open>a != b\<close>.\<close>

definition fle :: "double \<Rightarrow> double \<Rightarrow> bool" where
  "fle a b = (flt a b \<or> feq a b)"

definition fgt :: "double \<Rightarrow> double \<Rightarrow> bool" where
  "fgt a b = flt b a"

definition fge :: "double \<Rightarrow> double \<Rightarrow> bool" where
  "fge a b = fle b a"

definition fne :: "double \<Rightarrow> double \<Rightarrow> bool" where
  "fne a b = (\<not> feq a b)"

subsection \<open>Arithmetic\<close>

fun fneg :: "double \<Rightarrow> double" where
  "fneg (Finite r) = (if r = 0 then NegZero else Finite (- r))"
| "fneg NegZero = Finite 0"
| "fneg PosInf = NegInf"
| "fneg NegInf = PosInf"
| "fneg NaN = NaN"

fun fabs :: "double \<Rightarrow> double" where
  "fabs (Finite r) = Finite \<bar>r\<bar>"
| "fabs NegZero = Finite 0"
| "fabs PosInf = PosInf"
| "fabs NegInf = PosInf"
| "fabs NaN = NaN"

text \<open>
  \<^verbatim>\<open>a + b\<close> in the format \<open>f\<close>. An exact sum of zero is the positive zero unless both
  operands are the negative zero.
\<close>

fun fadd :: "format \<Rightarrow> double \<Rightarrow> double \<Rightarrow> double" where
  "fadd f NaN _ = NaN"
| "fadd f _ NaN = NaN"
| "fadd f PosInf NegInf = NaN"
| "fadd f NegInf PosInf = NaN"
| "fadd f PosInf _ = PosInf"
| "fadd f _ PosInf = PosInf"
| "fadd f NegInf _ = NegInf"
| "fadd f _ NegInf = NegInf"
| "fadd f NegZero NegZero = NegZero"
| "fadd f a b = round_to f (valof a + valof b)"

definition fsub :: "format \<Rightarrow> double \<Rightarrow> double \<Rightarrow> double" where
  "fsub f a b = fadd f a (fneg b)"

definition fmul :: "format \<Rightarrow> double \<Rightarrow> double \<Rightarrow> double" where
  "fmul f a b =
     (if isnan a \<or> isnan b then NaN
      else if (isinf a \<and> is_zero b) \<or> (is_zero a \<and> isinf b) then NaN
      else if isinf a \<or> isinf b then inf_of (signbit a \<noteq> signbit b)
      else if is_zero a \<or> is_zero b then zero_of (signbit a \<noteq> signbit b)
      else round_to f (valof a * valof b))"

definition fdiv :: "format \<Rightarrow> double \<Rightarrow> double \<Rightarrow> double" where
  "fdiv f a b =
     (if isnan a \<or> isnan b then NaN
      else if (isinf a \<and> isinf b) \<or> (is_zero a \<and> is_zero b) then NaN
      else if isinf a \<or> is_zero b then inf_of (signbit a \<noteq> signbit b)
      else if isinf b \<or> is_zero a then zero_of (signbit a \<noteq> signbit b)
      else round_to f (valof a / valof b))"


section \<open>Data model\<close>

text \<open>
  The header that declares the types is not among the sources; the declarations below
  are read off their uses in \<^verbatim>\<open>StereoFrame.cpp\<close>: the tags a \<^verbatim>\<open>switch\<close> lists, the members
  that are read or written, \<^verbatim>\<open>.first\<close> and \<^verbatim>\<open>.second\<close> of a pair.

  \<^verbatim>\<open>KeypointStatus\<close>: why a right-image correspondence is usable or not. The source
  dispatches on these five tags.
\<close>

datatype KeypointStatus = VALID | NO_LEFT_RECT | NO_RIGHT_RECT | NO_DEPTH | FAILED_ARUN

text \<open>\<^verbatim>\<open>KeypointCV\<close> is \<^verbatim>\<open>cv::Point2f\<close>, with members \<^verbatim>\<open>x\<close> and \<^verbatim>\<open>y\<close>.\<close>

datatype KeypointCV = Point2f (pt_x: double) (pt_y: double)

text \<open>
  \<^verbatim>\<open>StatusKeypointCV\<close> is a \<^verbatim>\<open>std::pair\<close>: \<^verbatim>\<open>.first\<close> is \<open>fst\<close>, \<^verbatim>\<open>.second\<close> is \<open>snd\<close>.
\<close>

type_synonym StatusKeypointCV = "KeypointStatus \<times> KeypointCV"
type_synonym StatusKeypointsCV = "StatusKeypointCV list"

text \<open>A 3D point; \<^verbatim>\<open>p(2)\<close> of the source is \<open>coeff2 p\<close>.\<close>

datatype Vector3 = Vector3 (coeff0: double) (coeff1: double) (coeff2: double)

type_synonym LandmarkId = int

text \<open>
  The members of a monocular \<^verbatim>\<open>Frame\<close> that the stereo frame reads or writes. Member
  names are the source's without their trailing underscore (\<^verbatim>\<open>keypoints_\<close> is
  \<open>keypoints\<close>), and \<^verbatim>\<open>id_\<close> is \<open>frame_id\<close>.
\<close>

record Frame =
  keypoints :: "KeypointCV list"
  scores :: "double list"
  landmarks :: "LandmarkId list"
  isKeyframe :: bool

record StereoFrame =
  frame_id :: nat
  timestamp :: int
  left_frame :: Frame
  right_frame :: Frame
  is_keyframe :: bool
  is_rectified :: bool
  keypoints_3d :: "Vector3 list"
  left_keypoints_rectified :: StatusKeypointsCV
  right_keypoints_rectified :: StatusKeypointsCV

section \<open>Keyframe flag\<close>

text \<open>\<^verbatim>\<open>StereoFrame::setIsKeyframe\<close>: three assignments.\<close>

definition setIsKeyframe :: "StereoFrame \<Rightarrow> bool \<Rightarrow> StereoFrame" where
  "setIsKeyframe sf is_kf =
     sf\<lparr> is_keyframe := is_kf,
         left_frame := (left_frame sf)\<lparr> isKeyframe := is_kf \<rparr>,
         right_frame := (right_frame sf)\<lparr> isKeyframe := is_kf \<rparr> \<rparr>"

section \<open>Fatal checks and loops\<close>

text \<open>
  A failed glog \<^verbatim>\<open>CHECK\<close> aborts the process, and \<^verbatim>\<open>std::vector::at\<close> throws out of
  range. Both are values here: a function that can fail returns \<open>fatal + 'a\<close>, with
  \<open>Inl\<close> saying which check failed (and at which index, inside a loop).
\<close>

datatype fatal =
    Scores_size
  | Right_keypoints_size
  | Keypoints_3d_size
  | Left_keypoints_rectified_size
  | Right_keypoints_rectified_size
  | Rectified_y_differs nat
  | Right_keypoint_is_zero nat
  | Nonpositive_for_valid nat
  | Positive_for_nonvalid nat
  | Size_mismatch
  | Depths_size_mismatch
  | Null_pointer
  | Not_rectified
  | Out_of_range nat

text \<open>\<^verbatim>\<open>CHECK(c)\<close> as a statement, and the sequencing of two statements.\<close>

definition CHECK :: "bool \<Rightarrow> fatal \<Rightarrow> fatal + unit" where
  "CHECK c e = (if c then Inr () else Inl e)"

definition andThen :: "fatal + unit \<Rightarrow> fatal + 'a \<Rightarrow> fatal + 'a" where
  "andThen stmt rest = (case stmt of Inl e \<Rightarrow> Inl e | Inr _ \<Rightarrow> rest)"

text \<open>
  \<^verbatim>\<open>for (size_t i = 0; i < n; i++) body\<close> over a state, for the indices given in
  order; the first failure ends the loop.
\<close>

fun for_each :: "(nat \<Rightarrow> 's \<Rightarrow> fatal + 's) \<Rightarrow> nat list \<Rightarrow> 's \<Rightarrow> fatal + 's" where
  "for_each body [] s = Inr s"
| "for_each body (i # is) s =
     (case body i s of Inl e \<Rightarrow> Inl e | Inr s' \<Rightarrow> for_each body is s')"

section \<open>Invariant checker\<close>

text \<open>
  The body of the loop of \<^verbatim>\<open>StereoFrame::checkStereoFrame\<close> at index \<open>i\<close>. It runs
  only after the five size checks, so every index it reads is in range. The two
  \<^verbatim>\<open>if\<close> statements on the right status are kept apart, as in the source. The
  difference of the two \<^verbatim>\<open>y\<close> is a \<^verbatim>\<open>float\<close> operation, and so is the sum of the two
  absolute values when \<^verbatim>\<open>fabs\<close> resolves to its \<^verbatim>\<open>float\<close> overload; taken in
  \<^verbatim>\<open>double\<close>, the sum of two \<^verbatim>\<open>float\<close>s is zero for the same coordinates, the two
  zeros.
\<close>

definition check_keypoint :: "StereoFrame \<Rightarrow> nat \<Rightarrow> unit \<Rightarrow> fatal + unit" where
  "check_keypoint sf i u =
     andThen
       (if fst (right_keypoints_rectified sf ! i) = VALID then
          CHECK (fle (fabs (fsub binary32 (pt_y (snd (right_keypoints_rectified sf ! i)))
                                          (pt_y (snd (left_keypoints_rectified sf ! i)))))
                     (Finite 3))
            (Rectified_y_differs i)
        else Inr ())
       (if fst (right_keypoints_rectified sf ! i) = VALID then
          andThen
            (CHECK (fne (fadd binary32 (fabs (pt_x (keypoints (right_frame sf) ! i)))
                                       (fabs (pt_y (keypoints (right_frame sf) ! i))))
                        (Finite 0))
               (Right_keypoint_is_zero i))
            (CHECK (fgt (coeff2 (keypoints_3d sf ! i)) (Finite 0))
               (Nonpositive_for_valid i))
        else
          CHECK (fle (coeff2 (keypoints_3d sf ! i)) (Finite 0))
            (Positive_for_nonvalid i))"

definition checkStereoFrame :: "StereoFrame \<Rightarrow> fatal + unit" where
  "checkStereoFrame sf =
     (let nrLeftKeypoints = length (keypoints (left_frame sf)) in
      andThen (CHECK (length (scores (left_frame sf)) = nrLeftKeypoints) Scores_size)
     (andThen (CHECK (length (keypoints (right_frame sf)) = nrLeftKeypoints)
        Right_keypoints_size)
     (andThen (CHECK (length (keypoints_3d sf) = nrLeftKeypoints) Keypoints_3d_size)
     (andThen (CHECK (length (left_keypoints_rectified sf) = nrLeftKeypoints)
        Left_keypoints_rectified_size)
     (andThen (CHECK (length (right_keypoints_rectified sf) = nrLeftKeypoints)
        Right_keypoints_rectified_size)
     (for_each (check_keypoint sf) [0..<nrLeftKeypoints] ()))))))"

section \<open>Depth from rectified matches\<close>

text \<open>The two members of \<^verbatim>\<open>StereoMatchingParams\<close> that the depth estimator reads.\<close>

record StereoMatchingParams =
  min_point_dist :: double
  max_point_dist :: double

text \<open>
  \<^verbatim>\<open>StereoFrame::getDepthFromRectifiedMatches\<close> takes its two vectors by non-const
  reference and writes through the right one, so what a call does to the left vector
  depends on whether the two references name one object. The vectors live in a store,
  a reference is an address in it, and the state of the loop is the store and the
  vector \<^verbatim>\<open>depths\<close> being built. The local counter \<^verbatim>\<open>nrValidDepths\<close> is never read and
  is left out.
\<close>

type_synonym ref = nat

record depth_state =
  vectors :: "ref \<Rightarrow> StatusKeypointsCV"
  depths :: "double list"

text \<open>\<^verbatim>\<open>v[i].first = st\<close> for the vector at \<open>r\<close>, and \<^verbatim>\<open>depths.push_back(d)\<close>.\<close>

definition set_first ::
  "(ref \<Rightarrow> StatusKeypointsCV) \<Rightarrow> ref \<Rightarrow> nat \<Rightarrow> KeypointStatus \<Rightarrow> (ref \<Rightarrow> StatusKeypointsCV)" where
  "set_first h r i st = h(r := (h r)[i := (st, snd (h r ! i))])"

definition push_back :: "'a list \<Rightarrow> 'a \<Rightarrow> 'a list" where
  "push_back v a = v @ [a]"

text \<open>
  One iteration of the loop, at index \<open>i\<close>. The disparity is a difference of two
  \<^verbatim>\<open>float\<close>s, the depth a quotient of two \<^verbatim>\<open>double\<close>s.
\<close>

definition depth_iteration ::
  "double \<Rightarrow> StereoMatchingParams \<Rightarrow> ref \<Rightarrow> ref \<Rightarrow> nat \<Rightarrow> depth_state \<Rightarrow> depth_state" where
  "depth_iteration fx_b stereo_matching_params left_ref right_ref i s =
     (if fst (vectors s left_ref ! i) = VALID \<and> fst (vectors s right_ref ! i) = VALID then
        (let left_px = snd (vectors s left_ref ! i);
             right_px = snd (vectors s right_ref ! i);
             disparity = fsub binary32 (pt_x left_px) (pt_x right_px)
         in
           if fge disparity (Finite 0) then
             (let depth = fdiv binary64 fx_b disparity in
              if flt depth (min_point_dist stereo_matching_params) \<or>
                 fgt depth (max_point_dist stereo_matching_params)
              then s\<lparr> vectors := set_first (vectors s) right_ref i NO_DEPTH,
                      depths := push_back (depths s) (Finite 0) \<rparr>
              else s\<lparr> depths := push_back (depths s) depth \<rparr>)
           else s\<lparr> vectors := set_first (vectors s) right_ref i NO_DEPTH,
                   depths := push_back (depths s) (Finite 0) \<rparr>)
      else
        (let s' = (if fst (vectors s left_ref ! i) \<noteq> VALID
                   then s\<lparr> vectors := set_first (vectors s) right_ref i
                                         (fst (vectors s left_ref ! i)) \<rparr>
                   else s)
         in s'\<lparr> depths := push_back (depths s') (Finite 0) \<rparr>))"

text \<open>
  The function, on a store \<open>h\<close> and the two references. It returns the vector of
  depths; the model returns the final state, whose store holds the caller's vectors
  after the call.
\<close>

definition getDepthFromRectifiedMatches ::
  "(ref \<Rightarrow> StatusKeypointsCV) \<Rightarrow> ref \<Rightarrow> ref \<Rightarrow> double \<Rightarrow> double \<Rightarrow> StereoMatchingParams
     \<Rightarrow> fatal + depth_state" where
  "getDepthFromRectifiedMatches h left_ref right_ref fx baseline stereo_matching_params =
     (let fx_b = fmul binary64 fx baseline;
          s0 = \<lparr> vectors = h, depths = [] \<rparr>
      in
      andThen (CHECK (length (h left_ref) = length (h right_ref)) Size_mismatch)
        (let s = fold (depth_iteration fx_b stereo_matching_params left_ref right_ref)
                   [0..<length (h left_ref)] s0
         in andThen (CHECK (length (vectors s left_ref) = length (depths s))
                       Depths_size_mismatch)
              (Inr s)))"

section \<open>Measurement assembly\<close>

text \<open>\<^verbatim>\<open>gtsam::StereoPoint2(uL, uR, v)\<close>, and an entry of \<^verbatim>\<open>StereoMeasurements\<close>.\<close>

datatype StereoPoint2 = StereoPoint2 (sp_uL: double) (sp_uR: double) (sp_v: double)

type_synonym StereoMeasurement = "LandmarkId \<times> StereoPoint2"
type_synonym StereoMeasurements = "StereoMeasurement list"

text \<open>\<^verbatim>\<open>v.at(i)\<close>: the element, or the exception.\<close>

definition vector_at :: "'a list \<Rightarrow> nat \<Rightarrow> fatal + 'a" where
  "vector_at v i = (if i < length v then Inr (v ! i) else Inl (Out_of_range i))"

text \<open>
  One iteration of the loop of \<^verbatim>\<open>StereoFrame::getSmartStereoMeasurements\<close>. The
  source's line 229 reads \<^verbatim>\<open>right_keypoints_rectified_.at(i).x\<close>; the element is a
  pair, so this is its pixel's \<^verbatim>\<open>x\<close>. The right vector is read only when
  \<^verbatim>\<open>use_stereo_measurements\<close> holds (\<^verbatim>\<open>&&\<close> evaluates its right side only then).
\<close>

definition measurement_iteration ::
  "StereoFrame \<Rightarrow> bool \<Rightarrow> nat \<Rightarrow> StereoMeasurements \<Rightarrow> fatal + StereoMeasurements" where
  "measurement_iteration sf use_stereo_measurements i out =
     (case vector_at (landmarks (left_frame sf)) i of
        Inl e \<Rightarrow> Inl e
      | Inr lmk_id \<Rightarrow>
          if lmk_id = - 1 then Inr out
          else
            (case vector_at (left_keypoints_rectified sf) i of
               Inl e \<Rightarrow> Inl e
             | Inr left_st_kpt \<Rightarrow>
                 (let left_kpt = snd left_st_kpt in
                  if use_stereo_measurements then
                    (case vector_at (right_keypoints_rectified sf) i of
                       Inl e \<Rightarrow> Inl e
                     | Inr right_st_kpt \<Rightarrow>
                         Inr (push_back out
                           (lmk_id, StereoPoint2 (pt_x left_kpt)
                              (if fst right_st_kpt = VALID then pt_x (snd right_st_kpt)
                               else NaN)
                              (pt_y left_kpt))))
                  else
                    Inr (push_back out
                      (lmk_id, StereoPoint2 (pt_x left_kpt) NaN (pt_y left_kpt))))))"

text \<open>
  The output container is passed by pointer: \<open>None\<close> is the null pointer, \<open>Some old\<close>
  a container holding \<open>old\<close>. The result is what the container holds on return.
\<close>

definition clear :: "'a list \<Rightarrow> 'a list" where
  "clear v = []"

definition getSmartStereoMeasurements ::
  "StereoFrame \<Rightarrow> StereoMeasurements option \<Rightarrow> bool \<Rightarrow> fatal + StereoMeasurements" where
  "getSmartStereoMeasurements sf smart_stereo_measurements use_stereo_measurements =
     (case smart_stereo_measurements of
        None \<Rightarrow> Inl Null_pointer
      | Some old \<Rightarrow>
          (let out = clear old in
           andThen (CHECK (is_rectified sf) Not_rectified)
          (andThen (checkStereoFrame sf)
             (for_each (measurement_iteration sf use_stereo_measurements)
                [0..<length (landmarks (left_frame sf))] out))))"

section \<open>Example inputs\<close>

text \<open>
  Six matched keypoints for the depth estimator, used with \<open>fx = 500\<close>, a baseline of
  \<open>0.2\<close> and the range \<open>[0.1, 50]\<close>: an accepted match (disparity 10, depth 10), a left
  keypoint that is not valid, a zero disparity, a negative disparity, a right keypoint
  that is not valid, and a match that is too close (disparity 2000, depth 0.05). The
  store \<open>example_store\<close> holds the left vector at address 0 and the right one at
  address 1.
\<close>

definition example_left :: StatusKeypointsCV where
  "example_left =
     [(VALID, Point2f (Finite 110) (Finite 50)),
      (NO_LEFT_RECT, Point2f (Finite 0) (Finite 0)),
      (VALID, Point2f (Finite 70) (Finite 20)),
      (VALID, Point2f (Finite 50) (Finite 30)),
      (VALID, Point2f (Finite 80) (Finite 40)),
      (VALID, Point2f (Finite 2000) (Finite 60))]"

definition example_right :: StatusKeypointsCV where
  "example_right =
     [(VALID, Point2f (Finite 100) (Finite 50)),
      (VALID, Point2f (Finite 3) (Finite 4)),
      (VALID, Point2f (Finite 70) (Finite 20)),
      (VALID, Point2f (Finite 60) (Finite 30)),
      (FAILED_ARUN, Point2f (Finite 75) (Finite 40)),
      (VALID, Point2f (Finite 0) (Finite 60))]"

definition example_params :: StereoMatchingParams where
  "example_params = \<lparr> min_point_dist = double_of 0.1, max_point_dist = Finite 50 \<rparr>"

definition example_store :: "ref \<Rightarrow> StatusKeypointsCV" where
  "example_store = (\<lambda>r. [])(0 := example_left, 1 := example_right)"

text \<open>
  The scenario of three keypoints: a valid match of disparity 10, a left keypoint
  without rectification, and a valid pair of disparity 0.
\<close>

definition scenario_store :: "ref \<Rightarrow> StatusKeypointsCV" where
  "scenario_store =
     (\<lambda>r. [])(0 := [(VALID, Point2f (Finite 110) (Finite 50)),
                      (NO_LEFT_RECT, Point2f (Finite 0) (Finite 0)),
                      (VALID, Point2f (Finite 70) (Finite 20))],
                1 := [(VALID, Point2f (Finite 100) (Finite 50)),
                      (VALID, Point2f (Finite 3) (Finite 4)),
                      (VALID, Point2f (Finite 70) (Finite 20))])"

text \<open>Two matches, of disparity 400 and 50.\<close>

definition range_store :: "ref \<Rightarrow> StatusKeypointsCV" where
  "range_store =
     (\<lambda>r. [])(0 := [(VALID, Point2f (Finite 400) (Finite 20)),
                      (VALID, Point2f (Finite 60) (Finite 20))],
                1 := [(VALID, Point2f (Finite 0) (Finite 20)),
                      (VALID, Point2f (Finite 10) (Finite 20))])"

text \<open>
  A match whose exact disparity, 99999999, is not a \<^verbatim>\<open>float\<close>: the difference of the
  two coordinates rounds to \<open>10^8\<close>.
\<close>

definition rounding_store :: "ref \<Rightarrow> StatusKeypointsCV" where
  "rounding_store =
     (\<lambda>r. [])(0 := [(VALID, Point2f (Finite 100000000) (Finite 20))],
                1 := [(VALID, Point2f (Finite 1) (Finite 20))])"

text \<open>
  A match of the largest power of two with its negative: the difference of the two
  \<^verbatim>\<open>float\<close>s overflows.
\<close>

definition overflow_store :: "ref \<Rightarrow> StatusKeypointsCV" where
  "overflow_store =
     (\<lambda>r. [])(0 := [(VALID, Point2f (Finite (2 ^ 127)) (Finite 20))],
                1 := [(VALID, Point2f (Finite (- (2 ^ 127))) (Finite 20))])"

text \<open>A store with one vector of one keypoint, for a call that passes it twice.\<close>

definition single_store :: "ref \<Rightarrow> StatusKeypointsCV" where
  "single_store = (\<lambda>r. [])(0 := [(VALID, Point2f (Finite 100) (Finite 50))])"

text \<open>A store with two equal vectors of one keypoint: a match of disparity zero.\<close>

definition zero_store :: "ref \<Rightarrow> StatusKeypointsCV" where
  "zero_store = (\<lambda>r. [])(0 := [(VALID, Point2f (Finite 100) (Finite 50))],
                           1 := [(VALID, Point2f (Finite 100) (Finite 50))])"


text \<open>
  A rectified stereo frame with three keypoints that passes the checker; the second
  keypoint has no landmark. \<open>example_frame_positive\<close> differs in one depth: its second
  keypoint, which is not valid, has a positive \<open>z\<close>.
\<close>

definition example_frame :: StereoFrame where
  "example_frame =
     \<lparr> frame_id = 1, timestamp = 1000,
       left_frame = \<lparr> keypoints = [Point2f (Finite 112) (Finite 51),
                                    Point2f (Finite 5) (Finite 6),
                                    Point2f (Finite 71) (Finite 22)],
                      scores = [Finite 1, Finite 1, Finite 1],
                      landmarks = [7, - 1, 9],
                      isKeyframe = False \<rparr>,
       right_frame = \<lparr> keypoints = [Point2f (Finite 101) (Finite 51),
                                     Point2f (Finite 3) (Finite 4),
                                     Point2f (Finite 71) (Finite 22)],
                       scores = [],
                       landmarks = [],
                       isKeyframe = False \<rparr>,
       is_keyframe = False,
       is_rectified = True,
       keypoints_3d = [Vector3 (Finite 1) (Finite 0.5) (Finite 10),
                       Vector3 (Finite 0) (Finite 0) (Finite 0),
                       Vector3 (Finite 0) (Finite 0) (Finite 0)],
       left_keypoints_rectified = [(VALID, Point2f (Finite 110) (Finite 50)),
                                   (NO_LEFT_RECT, Point2f (Finite 0) (Finite 0)),
                                   (VALID, Point2f (Finite 70) (Finite 20))],
       right_keypoints_rectified = [(VALID, Point2f (Finite 100) (Finite 50)),
                                    (NO_LEFT_RECT, Point2f (Finite 3) (Finite 4)),
                                    (NO_DEPTH, Point2f (Finite 70) (Finite 20))] \<rparr>"

definition example_frame_positive :: StereoFrame where
  "example_frame_positive =
     example_frame\<lparr> keypoints_3d := [Vector3 (Finite 1) (Finite 0.5) (Finite 10),
                                      Vector3 (Finite 0) (Finite 0) (Finite 5),
                                      Vector3 (Finite 0) (Finite 0) (Finite 0)] \<rparr>"

section \<open>Facts about rounding\<close>

lemma round_half_even_int [simp]: "round_half_even (of_int n) = n"
  by (simp add: round_half_even_def)

lemma round_to_zero [simp]: "round_to f 0 = Finite 0"
  by (simp add: round_to_def)

text \<open>The exponent of a nonzero real is the one that brackets it by powers of two.\<close>

lemma exponent_of_bounds:
  assumes "r \<noteq> 0"
  shows "2 powi (exponent_of r) \<le> \<bar>r\<bar> \<and> \<bar>r\<bar> < 2 powi (exponent_of r + 1)"
proof (cases "1 \<le> \<bar>r\<bar>")
  case True
  let ?n = "\<lfloor>\<bar>r\<bar>\<rfloor>"
  have n: "0 < ?n" using True by linarith
  have b: "1 \<le> bitlen ?n" using n by (simp add: bitlen_alt_def)
  have e: "exponent_of r = bitlen ?n - 1" using True by (simp add: exponent_of_def)
  have lo: "(2::int) ^ nat (bitlen ?n - 1) \<le> ?n" and hi: "?n < 2 ^ nat (bitlen ?n)"
    using bitlen_bounds [OF n] by simp_all
  have "(2::real) ^ nat (bitlen ?n - 1) \<le> of_int ?n"
    using lo by (metis of_int_le_iff of_int_numeral of_int_power)
  also have "\<dots> \<le> \<bar>r\<bar>" by simp
  finally have 1: "2 powi (exponent_of r) \<le> \<bar>r\<bar>"
    using b e by (simp add: power_int_def)
  have "?n + 1 \<le> 2 ^ nat (bitlen ?n)" using hi by simp
  then have "of_int (?n + 1) \<le> (2::real) ^ nat (bitlen ?n)"
    by (metis of_int_le_iff of_int_numeral of_int_power)
  moreover have "\<bar>r\<bar> < of_int (?n + 1)" by linarith
  ultimately have "\<bar>r\<bar> < (2::real) ^ nat (bitlen ?n)" by linarith
  then have 2: "\<bar>r\<bar> < 2 powi (exponent_of r + 1)"
    using b e by (simp add: power_int_def)
  show ?thesis using 1 2 by simp
next
  case False
  let ?x = "1 / \<bar>r\<bar>"
  let ?m = "\<lceil>?x\<rceil> - 1"
  have r: "0 < \<bar>r\<bar>" "\<bar>r\<bar> < 1" using assms False by simp_all
  have x: "1 < ?x" using r by simp
  have m: "0 < ?m" using x by linarith
  have mx: "of_int ?m < ?x" "?x \<le> of_int ?m + 1" by linarith+
  have b: "1 \<le> bitlen ?m" using m by (simp add: bitlen_alt_def)
  have e: "exponent_of r = - bitlen ?m" using False by (simp add: exponent_of_def)
  have lo: "(2::int) ^ nat (bitlen ?m - 1) \<le> ?m" and hi: "?m < 2 ^ nat (bitlen ?m)"
    using bitlen_bounds [OF m] by simp_all
  have "?m + 1 \<le> 2 ^ nat (bitlen ?m)" using hi by simp
  then have "of_int (?m + 1) \<le> (2::real) ^ nat (bitlen ?m)"
    by (metis of_int_le_iff of_int_numeral of_int_power)
  then have "of_int ?m + 1 \<le> (2::real) ^ nat (bitlen ?m)" by simp
  then have xle: "?x \<le> 2 ^ nat (bitlen ?m)" using mx(2) by linarith
  have "(2::real) ^ nat (bitlen ?m - 1) \<le> of_int ?m"
    using lo by (metis of_int_le_iff of_int_numeral of_int_power)
  then have xgt: "2 ^ nat (bitlen ?m - 1) < ?x" using mx by linarith
  have "1 / 2 ^ nat (bitlen ?m) \<le> \<bar>r\<bar>"
    using xle r by (simp add: field_simps)
  then have 1: "2 powi (exponent_of r) \<le> \<bar>r\<bar>"
    using b e by (simp add: power_int_def field_simps)
  have "\<bar>r\<bar> < 1 / 2 ^ nat (bitlen ?m - 1)"
    using xgt r by (simp add: field_simps)
  moreover have "nat (- (1 - bitlen ?m)) = nat (bitlen ?m - 1)" by simp
  ultimately have 2: "\<bar>r\<bar> < 2 powi (exponent_of r + 1)"
    using b e by (auto simp add: power_int_def field_simps)
  show ?thesis using 1 2 by simp
qed

lemma exponent_of_eq:
  assumes "2 powi k \<le> \<bar>r\<bar>" and "\<bar>r\<bar> < 2 powi (k + 1)"
  shows "exponent_of r = k"
proof -
  have pk: "(0::real) < 2 powi k" by (simp add: zero_less_power_int)
  have "r \<noteq> 0"
  proof
    assume "r = 0"
    then have "(2::real) powi k \<le> 0" using assms(1) by simp
    then show False using pk by linarith
  qed
  from exponent_of_bounds [OF this]
  have b: "2 powi (exponent_of r) \<le> \<bar>r\<bar>" "\<bar>r\<bar> < 2 powi (exponent_of r + 1)" by simp_all
  have "\<not> k + 1 \<le> exponent_of r"
  proof
    assume "k + 1 \<le> exponent_of r"
    then have "(2::real) powi (k + 1) \<le> 2 powi (exponent_of r)"
      by (intro power_int_increasing) simp_all
    then show False using b(1) assms(2) by linarith
  qed
  moreover have "\<not> exponent_of r + 1 \<le> k"
  proof
    assume "exponent_of r + 1 \<le> k"
    then have "(2::real) powi (exponent_of r + 1) \<le> 2 powi k"
      by (intro power_int_increasing) simp_all
    then show False using b(2) assms(1) by linarith
  qed
  ultimately show ?thesis by linarith
qed

text \<open>
  Rounding leaves a value of the format as it is: a significand \<open>m\<close> of at most
  \<open>precision\<close> bits at an exponent within the range of the format.
\<close>

lemma round_to_exact:
  assumes r: "r = of_int m * 2 powi e"
    and m: "\<bar>m\<bar> < 2 ^ precision f"
    and lo: "1 - emax f - (int (precision f) - 1) \<le> e"
    and hi: "e \<le> emax f - (int (precision f) - 1)"
  shows "round_to f r = Finite r"
proof (cases "r = 0")
  case True
  then show ?thesis by (simp add: round_to_def)
next
  case False
  let ?p = "int (precision f)"
  let ?k = "exponent_of r"
  let ?e0 = "max ?k (1 - emax f) - (?p - 1)"
  have pos: "(0::real) < 2 powi j" for j by (simp add: zero_less_power_int)
  have kb: "2 powi ?k \<le> \<bar>r\<bar>" using exponent_of_bounds [OF False] by simp
  have "real_of_int \<bar>m\<bar> < 2 ^ precision f"
    using m by (metis of_int_less_iff of_int_numeral of_int_power)
  then have "\<bar>r\<bar> < 2 ^ precision f * 2 powi e"
    using pos [of e] by (simp add: r abs_mult)
  also have "\<dots> = 2 powi (?p + e)"
    by (simp add: power_int_add)
  finally have rb: "\<bar>r\<bar> < 2 powi (?p + e)" .
  have "\<not> ?p + e \<le> ?k"
  proof
    assume "?p + e \<le> ?k"
    then have "(2::real) powi (?p + e) \<le> 2 powi ?k"
      by (intro power_int_increasing) simp_all
    then show False using kb rb by linarith
  qed
  then have e0: "?e0 \<le> e" using lo by linarith
  define e0 where "e0 = ?e0"
  define d where "d = nat (e - e0)"
  have ed: "e = e0 + int d" using e0 by (simp add: d_def e0_def)
  have "(2::real) powi e = 2 powi e0 * 2 ^ d"
    by (subst ed, subst power_int_add) simp_all
  then have re: "r = of_int (m * 2 ^ d) * 2 powi e0"
    by (simp add: r)
  then have q: "r / 2 powi e0 = of_int (m * 2 ^ d)"
    using pos [of e0] by simp
  have "of_int (round_half_even (r / 2 powi e0)) * 2 powi e0 = r"
    by (simp only: q round_half_even_int re [symmetric])
  then have y: "of_int (round_half_even (r / 2 powi ?e0)) * 2 powi ?e0 = r"
    by (simp only: e0_def)
  have "(2::real) powi (?p + e) \<le> 2 powi (emax f + 1)"
    using hi by (intro power_int_increasing) simp_all
  then have ov: "\<not> 2 powi (emax f + 1) \<le> \<bar>r\<bar>" using rb by linarith
  show ?thesis
    using False ov y by (simp add: round_to_def Let_def)
qed

lemma round_to_numeral:
  "numeral n < (16777216::int) \<Longrightarrow> round_to binary32 (numeral n) = Finite (numeral n)"
  "numeral n < (16777216::int) \<Longrightarrow> round_to binary32 (- numeral n) = Finite (- numeral n)"
  "numeral n < (9007199254740992::int) \<Longrightarrow>
     round_to binary64 (numeral n) = Finite (numeral n)"
  "numeral n < (9007199254740992::int) \<Longrightarrow>
     round_to binary64 (- numeral n) = Finite (- numeral n)"
  using round_to_exact [of "numeral n" "numeral n" 0 binary32]
    round_to_exact [of "- numeral n" "- numeral n" 0 binary32]
    round_to_exact [of "numeral n" "numeral n" 0 binary64]
    round_to_exact [of "- numeral n" "- numeral n" 0 binary64]
  by (simp_all add: binary32_def binary64_def)

lemmas round_eval =
  round_to_def round_half_even_def Let_def binary32_def binary64_def zero_of_def inf_of_def

lemmas compare_eval = fge_def fle_def fgt_def fne_def

lemmas model_eval =
  checkStereoFrame_def check_keypoint_def CHECK_def andThen_def
  getSmartStereoMeasurements_def measurement_iteration_def vector_at_def clear_def
  getDepthFromRectifiedMatches_def depth_iteration_def push_back_def set_first_def Let_def

subsection \<open>The arithmetic of the examples\<close>

text \<open>The \<^verbatim>\<open>double\<close>s nearest to \<open>0.2\<close> and to \<open>0.1\<close>.\<close>

lemma literals:
  "double_of 0.2 = Finite (3602879701896397 / 18014398509481984)"
  "double_of 0.1 = Finite (3602879701896397 / 36028797018963968)"
proof -
  have "exponent_of (1 / 5) = - 3" "exponent_of (1 / 10) = - 4"
    by (rule exponent_of_eq; simp)+
  then show "double_of 0.2 = Finite (3602879701896397 / 18014398509481984)"
    "double_of 0.1 = Finite (3602879701896397 / 36028797018963968)"
    by (simp_all add: double_of_def round_eval)
qed

text \<open>
  Products and quotients that round: \<open>500 * 0.2\<close> and \<open>1000 * 0.1\<close> are 100 although
  neither factor is the decimal it is written as, and \<open>100 / 2000\<close> is the \<^verbatim>\<open>double\<close>
  nearest to \<open>0.05\<close>.
\<close>

lemma example_products:
  "fmul binary64 (Finite 500) (Finite (3602879701896397 / 18014398509481984)) = Finite 100"
  "fmul binary64 (Finite 1000) (Finite (3602879701896397 / 36028797018963968)) = Finite 100"
  "fmul binary64 (Finite 500) (double_of 0.2) = Finite 100"
  "fmul binary64 (Finite 1000) (double_of 0.1) = Finite 100"
proof -
  have "exponent_of (500 * (3602879701896397 / 18014398509481984)) = 6"
    "exponent_of (1000 * (3602879701896397 / 36028797018963968)) = 6"
    by (rule exponent_of_eq; simp)+
  then show
    a: "fmul binary64 (Finite 500) (Finite (3602879701896397 / 18014398509481984)) =
          Finite 100"
    and b: "fmul binary64 (Finite 1000) (Finite (3602879701896397 / 36028797018963968)) =
          Finite 100"
    by (simp_all add: fmul_def round_eval)
  show "fmul binary64 (Finite 500) (double_of 0.2) = Finite 100"
    "fmul binary64 (Finite 1000) (double_of 0.1) = Finite 100"
    unfolding literals by (rule a, rule b)
qed

lemma example_quotients:
  "fdiv binary64 (Finite 100) (Finite 10) = Finite 10"
  "fdiv binary64 (Finite 100) (Finite 50) = Finite 2"
  "fdiv binary64 (Finite 100) (Finite 400) = Finite (1 / 4)"
  "fdiv binary64 (Finite 100) (Finite 2000) = Finite (3602879701896397 / 72057594037927936)"
  "fdiv binary64 (Finite 99999999) (Finite 100000000) =
     Finite (9007199164668999 / 9007199254740992)"
proof -
  show "fdiv binary64 (Finite 100) (Finite 10) = Finite 10"
    "fdiv binary64 (Finite 100) (Finite 50) = Finite 2"
    by (simp_all add: fdiv_def round_to_numeral)
  show "fdiv binary64 (Finite 100) (Finite 400) = Finite (1 / 4)"
    using round_to_exact [of "1 / 4" 1 "- 2" binary64]
    by (simp add: fdiv_def binary64_def)
  have "exponent_of (1 / 20) = - 5" "exponent_of (99999999 / 100000000) = - 1"
    by (rule exponent_of_eq; simp)+
  then show
    "fdiv binary64 (Finite 100) (Finite 2000) = Finite (3602879701896397 / 72057594037927936)"
    "fdiv binary64 (Finite 99999999) (Finite 100000000) =
       Finite (9007199164668999 / 9007199254740992)"
    by (simp_all add: fdiv_def round_eval)
qed

text \<open>
  Differences of two \<^verbatim>\<open>float\<close>s that round: \<open>10^8 - 1\<close> is \<open>10^8\<close>, and \<open>3 + 2^-30\<close> is 3.
\<close>

lemma example_differences:
  "fsub binary32 (Finite 100000000) (Finite 1) = Finite 100000000"
  "fsub binary32 (Finite 3) (Finite (- (1 / 2 ^ 30))) = Finite 3"
proof -
  have "exponent_of 99999999 = 26" "exponent_of (3 + 1 / 2 ^ 30) = 1"
    by (rule exponent_of_eq; simp)+
  then show "fsub binary32 (Finite 100000000) (Finite 1) = Finite 100000000"
    "fsub binary32 (Finite 3) (Finite (- (1 / 2 ^ 30))) = Finite 3"
    by (simp_all add: fsub_def round_eval)
qed

text \<open>
  Results beyond the largest value of the format are an infinity: a product of two
  \<^verbatim>\<open>double\<close>s, and a difference of two \<^verbatim>\<open>float\<close>s.
\<close>

lemma example_overflow:
  "fmul binary64 (Finite (2 ^ 1000)) (Finite (2 ^ 1000)) = PosInf"
  "fsub binary32 (Finite (2 ^ 127)) (Finite (- (2 ^ 127))) = PosInf"
proof -
  have "exponent_of (2 ^ 1000 * 2 ^ 1000) = 2000" "exponent_of (2 ^ 127 + 2 ^ 127) = 128"
    by (rule exponent_of_eq; simp)+
  then show "fmul binary64 (Finite (2 ^ 1000)) (Finite (2 ^ 1000)) = PosInf"
    "fsub binary32 (Finite (2 ^ 127)) (Finite (- (2 ^ 127))) = PosInf"
    by (simp_all add: fmul_def fsub_def round_eval)
qed

section \<open>Facts about the comparisons\<close>

lemma flt_not_fge: "flt a b \<Longrightarrow> \<not> fge a b"
  by (cases a; cases b; simp add: fge_def fle_def)


lemma fgt_not_fle: "fgt a b \<Longrightarrow> \<not> fle a b"
  by (cases a; cases b; simp add: fgt_def fle_def)


lemma flt_nan [simp]: "flt a NaN = False"
  by (cases a) simp_all

lemma feq_nan [simp]: "feq a NaN = False"
  by (cases a) simp_all


section \<open>The keyframe flag\<close>

text \<open>
  C9. One call of \<open>setIsKeyframe\<close> leaves the stereo frame's flag and the flags of the
  left and of the right monocular frame all equal to the argument.
\<close>

theorem setIsKeyframe_propagates:
  "is_keyframe (setIsKeyframe sf is_kf) = is_kf \<and>
   isKeyframe (left_frame (setIsKeyframe sf is_kf)) = is_kf \<and>
   isKeyframe (right_frame (setIsKeyframe sf is_kf)) = is_kf"
  by (simp add: setIsKeyframe_def)

section \<open>The invariant checker\<close>

lemma for_each_unit:
  "for_each body js () = Inr () \<longleftrightarrow> (\<forall>j\<in>set js. body j () = Inr ())"
  by (induction js) (auto split: sum.splits)

lemma fatal_or_done: "(\<exists>e. (r :: fatal + unit) = Inl e) \<or> r = Inr ()"
  by (cases r) auto

text \<open>What one index has to satisfy for the loop to go on.\<close>

lemma check_keypoint_passes:
  "check_keypoint sf i u = Inr () \<longleftrightarrow>
     (if fst (right_keypoints_rectified sf ! i) = VALID
      then fle (fabs (fsub binary32 (pt_y (snd (right_keypoints_rectified sf ! i)))
                                    (pt_y (snd (left_keypoints_rectified sf ! i)))))
                 (Finite 3) \<and>
           fne (fadd binary32 (fabs (pt_x (keypoints (right_frame sf) ! i)))
                              (fabs (pt_y (keypoints (right_frame sf) ! i)))) (Finite 0) \<and>
           fgt (coeff2 (keypoints_3d sf ! i)) (Finite 0)
      else fle (coeff2 (keypoints_3d sf ! i)) (Finite 0))"
  by (simp add: check_keypoint_def CHECK_def andThen_def)

text \<open>The checker passes exactly when the five sizes agree and every index passes.\<close>

lemma checkStereoFrame_passes:
  "checkStereoFrame sf = Inr () \<longleftrightarrow>
     length (scores (left_frame sf)) = length (keypoints (left_frame sf)) \<and>
     length (keypoints (right_frame sf)) = length (keypoints (left_frame sf)) \<and>
     length (keypoints_3d sf) = length (keypoints (left_frame sf)) \<and>
     length (left_keypoints_rectified sf) = length (keypoints (left_frame sf)) \<and>
     length (right_keypoints_rectified sf) = length (keypoints (left_frame sf)) \<and>
     (\<forall>i < length (keypoints (left_frame sf)). check_keypoint sf i () = Inr ())"
  by (auto simp add: checkStereoFrame_def Let_def CHECK_def andThen_def for_each_unit)

lemma example_frame_checks: "checkStereoFrame example_frame = Inr ()"
  by (simp add: checkStereoFrame_def check_keypoint_def CHECK_def andThen_def
        example_frame_def fsub_def compare_eval round_to_numeral upt_rec)

lemma example_frame_positive_fails:
  "checkStereoFrame example_frame_positive = Inl (Positive_for_nonvalid 1)"
  by (simp add: checkStereoFrame_def check_keypoint_def CHECK_def andThen_def
        example_frame_positive_def example_frame_def fsub_def compare_eval round_to_numeral
        upt_rec)

text \<open>
  The test on the two rectified \<^verbatim>\<open>y\<close> is on their rounded difference: \<open>3\<close> and \<open>-2^-30\<close>
  differ by more than 3, and pass.
\<close>

lemma rounded_y_difference_passes:
  "fle (fabs (fsub binary32 (Finite 3) (Finite (- (1 / 2 ^ 30))))) (Finite 3)"
  unfolding example_differences by (simp add: fle_def)

text \<open>
  C1. For every index \<open>i\<close> of the parallel arrays: when the checker passes, a right
  rectified status \<open>VALID\<close> at \<open>i\<close> comes with \<open>z > 0\<close>, any other status with \<open>z \<le> 0\<close>,
  so \<open>z > 0\<close> holds if and only if the status is \<open>VALID\<close>; and a frame in which the
  equivalence fails at some index makes the checker fail fatally.
\<close>

theorem checkStereoFrame_sign_invariant:
  assumes "i < length (keypoints (left_frame sf))"
  shows "(checkStereoFrame sf = Inr () \<longrightarrow>
            (fst (right_keypoints_rectified sf ! i) = VALID \<longrightarrow>
               fgt (coeff2 (keypoints_3d sf ! i)) (Finite 0)) \<and>
            (fst (right_keypoints_rectified sf ! i) \<noteq> VALID \<longrightarrow>
               fle (coeff2 (keypoints_3d sf ! i)) (Finite 0)) \<and>
            (fgt (coeff2 (keypoints_3d sf ! i)) (Finite 0) \<longleftrightarrow>
               fst (right_keypoints_rectified sf ! i) = VALID)) \<and>
         (\<not> (fgt (coeff2 (keypoints_3d sf ! i)) (Finite 0) \<longleftrightarrow>
               fst (right_keypoints_rectified sf ! i) = VALID) \<longrightarrow>
            (\<exists>e. checkStereoFrame sf = Inl e))"
proof -
  have pass: "(fgt (coeff2 (keypoints_3d sf ! i)) (Finite 0) \<longleftrightarrow>
               fst (right_keypoints_rectified sf ! i) = VALID) \<and>
      (fst (right_keypoints_rectified sf ! i) \<noteq> VALID \<longrightarrow>
               fle (coeff2 (keypoints_3d sf ! i)) (Finite 0))"
    if ok: "checkStereoFrame sf = Inr ()"
  proof -
    have "check_keypoint sf i () = Inr ()"
      using ok assms by (simp add: checkStereoFrame_passes)
    then show ?thesis
      using fgt_not_fle [of "coeff2 (keypoints_3d sf ! i)" "Finite 0"]
      by (auto simp add: check_keypoint_passes split: if_splits)
  qed
  show ?thesis
    using pass fatal_or_done [of "checkStereoFrame sf"] by blast
qed

theorem checkStereoFrame_sign_invariant_witness:
  "0 < length (keypoints (left_frame example_frame)) \<and>
   checkStereoFrame example_frame = Inr () \<and>
   fst (right_keypoints_rectified example_frame ! 0) = VALID \<and>
   fgt (coeff2 (keypoints_3d example_frame ! 0)) (Finite 0) \<and>
   fst (right_keypoints_rectified example_frame ! 1) \<noteq> VALID \<and>
   fle (coeff2 (keypoints_3d example_frame ! 1)) (Finite 0) \<and>
   1 < length (keypoints (left_frame example_frame_positive)) \<and>
   fst (right_keypoints_rectified example_frame_positive ! 1) \<noteq> VALID \<and>
   fgt (coeff2 (keypoints_3d example_frame_positive ! 1)) (Finite 0) \<and>
   (\<exists>e. checkStereoFrame example_frame_positive = Inl e)"
proof -
  have ok: "checkStereoFrame example_frame = Inr ()" by (rule example_frame_checks)
  have n: "0 < length (keypoints (left_frame example_frame))"
    "1 < length (keypoints (left_frame example_frame))"
    "1 < length (keypoints (left_frame example_frame_positive))"
    by (simp_all add: example_frame_def example_frame_positive_def)
  have st: "fst (right_keypoints_rectified example_frame ! 0) = VALID"
    "fst (right_keypoints_rectified example_frame ! 1) \<noteq> VALID"
    "fst (right_keypoints_rectified example_frame_positive ! 1) \<noteq> VALID"
    "fgt (coeff2 (keypoints_3d example_frame_positive ! 1)) (Finite 0)"
    by (simp_all add: example_frame_def example_frame_positive_def fgt_def)
  show ?thesis
    using ok n st
      checkStereoFrame_sign_invariant [OF n(1)]
      checkStereoFrame_sign_invariant [OF n(2)]
      checkStereoFrame_sign_invariant [OF n(3)]
    by simp
qed

section \<open>The depth estimator\<close>

subsection \<open>One iteration\<close>

lemma set_first_length [simp]: "length (set_first h r i st q) = length (h q)"
  by (simp add: set_first_def)

lemma set_first_other_index: "j \<noteq> i \<Longrightarrow> set_first h r i st q ! j = h q ! j"
  by (simp add: set_first_def)

lemma set_first_other_ref: "q \<noteq> r \<Longrightarrow> set_first h r i st q = h q"
  by (simp add: set_first_def)

lemma set_first_snd: "snd (set_first h r i st q ! j) = snd (h q ! j)"
proof (cases "q = r \<and> i < length (h r)")
  case True
  then show ?thesis by (simp add: set_first_def nth_list_update)
next
  case False
  then consider "q \<noteq> r" | "q = r" "length (h r) \<le> i" by fastforce
  then show ?thesis
  proof cases
    case 1
    then show ?thesis by (simp add: set_first_def)
  next
    case 2
    then have "(h r)[i := (st, snd (h r ! i))] = h r" by (simp only: list_update_beyond)
    then show ?thesis using 2 by (simp add: set_first_def)
  qed
qed

lemma depth_iteration_length [simp]:
  "length (vectors (depth_iteration f p l r i s) q) = length (vectors s q)"
  by (simp add: depth_iteration_def Let_def)

lemma depth_iteration_depths:
  "\<exists>d. depths (depth_iteration f p l r i s) = depths s @ [d]"
  by (simp add: depth_iteration_def Let_def push_back_def)

lemma depth_iteration_other:
  "j \<noteq> i \<Longrightarrow> vectors (depth_iteration f p l r i s) q ! j = vectors s q ! j"
  by (simp add: depth_iteration_def Let_def set_first_other_index)

text \<open>An iteration writes through the right reference only.\<close>

lemma depth_iteration_other_ref:
  "q \<noteq> r \<Longrightarrow> vectors (depth_iteration f p l r i s) q = vectors s q"
  by (simp add: depth_iteration_def Let_def set_first_other_ref)

text \<open>No iteration writes a pixel.\<close>

lemma depth_iteration_pixel:
  "snd (vectors (depth_iteration f p l r i s) q ! j) = snd (vectors s q ! j)"
  by (simp add: depth_iteration_def Let_def set_first_snd)

text \<open>
  What iteration \<open>i\<close> leaves at index \<open>i\<close> of a vector, and the depth it pushes, depend
  only on the entries at index \<open>i\<close>.
\<close>

lemma depth_iteration_local:
  assumes "vectors s l ! i = vectors t l ! i" and "vectors s r ! i = vectors t r ! i"
    and "vectors s q ! i = vectors t q ! i"
    and "i < length (vectors s r)" and "i < length (vectors t r)"
  shows "vectors (depth_iteration f p l r i s) q ! i =
           vectors (depth_iteration f p l r i t) q ! i \<and>
         last (depths (depth_iteration f p l r i s)) =
           last (depths (depth_iteration f p l r i t))"
  using assms by (simp add: depth_iteration_def Let_def set_first_def push_back_def)

subsection \<open>The loop\<close>

text \<open>
  After \<open>k\<close> iterations every vector has its length, \<open>k\<close> depths have been pushed, the
  entries from \<open>k\<close> on are still the caller's, and so is every vector but the one the
  right reference names.
\<close>

lemma depth_loop_invariant:
  "(\<forall>q. length (vectors (fold (depth_iteration f p l r) [0..<k] s0) q) =
        length (vectors s0 q)) \<and>
   length (depths (fold (depth_iteration f p l r) [0..<k] s0)) = length (depths s0) + k \<and>
   (\<forall>q. \<forall>j\<ge>k. vectors (fold (depth_iteration f p l r) [0..<k] s0) q ! j =
        vectors s0 q ! j) \<and>
   (\<forall>q. q \<noteq> r \<longrightarrow> vectors (fold (depth_iteration f p l r) [0..<k] s0) q = vectors s0 q)"
proof (induction k)
  case 0
  then show ?case by simp
next
  case (Suc k)
  obtain d where d:
    "depths (depth_iteration f p l r k (fold (depth_iteration f p l r) [0..<k] s0)) =
      depths (fold (depth_iteration f p l r) [0..<k] s0) @ [d]"
    using depth_iteration_depths by blast
  show ?case using Suc d by (simp add: depth_iteration_other depth_iteration_other_ref)
qed

text \<open>
  The loop's result at index \<open>i\<close> is what iteration \<open>i\<close> alone does to the initial state:
  later iterations leave it, and earlier ones have not touched the entries it reads.
  This holds whether or not the two references name one vector.
\<close>

lemma depth_loop_at:
  assumes "i < k" and "k \<le> length (vectors s0 r)"
  shows "(\<forall>q. vectors (fold (depth_iteration f p l r) [0..<k] s0) q ! i =
           vectors (depth_iteration f p l r i s0) q ! i) \<and>
         depths (fold (depth_iteration f p l r) [0..<k] s0) ! (length (depths s0) + i) =
           last (depths (depth_iteration f p l r i s0))"
  using assms
proof (induction k)
  case 0
  then show ?case by simp
next
  case (Suc k)
  let ?s = "fold (depth_iteration f p l r) [0..<k] s0"
  have inv: "\<And>q. length (vectors ?s q) = length (vectors s0 q)"
    "length (depths ?s) = length (depths s0) + k" "\<And>q. vectors ?s q ! k = vectors s0 q ! k"
    using depth_loop_invariant [of f p l r k s0] by simp_all
  obtain d where d: "depths (depth_iteration f p l r k ?s) = depths ?s @ [d]"
    using depth_iteration_depths by blast
  show ?case
  proof (cases "i = k")
    case True
    have "vectors (depth_iteration f p l r k ?s) q ! k =
            vectors (depth_iteration f p l r k s0) q ! k \<and>
          last (depths (depth_iteration f p l r k ?s)) =
            last (depths (depth_iteration f p l r k s0))" for q
      using Suc.prems inv by (intro depth_iteration_local) simp_all
    moreover have "depths (depth_iteration f p l r k ?s) ! (length (depths s0) + k) =
        last (depths (depth_iteration f p l r k ?s))"
      using d inv by (simp add: nth_append)
    ultimately show ?thesis using True by simp
  next
    case False
    then have "i < k" using Suc.prems by simp
    then show ?thesis
      using Suc d inv by (simp add: depth_iteration_other nth_append)
  qed
qed

lemma depth_loop_pixel:
  "snd (vectors (fold (depth_iteration f p l r) [0..<k] s0) q ! j) = snd (vectors s0 q ! j)"
  by (induction k) (simp_all add: depth_iteration_pixel)

subsection \<open>The function\<close>

text \<open>With vectors of one size the function returns, and its last check never fails.\<close>

lemma getDepth_returns:
  assumes "length (h l) = length (h r)"
  shows "getDepthFromRectifiedMatches h l r fx b p =
     Inr (fold (depth_iteration (fmul binary64 fx b) p l r) [0..<length (h l)]
            \<lparr> vectors = h, depths = [] \<rparr>)"
  using assms
    depth_loop_invariant [of "fmul binary64 fx b" p l r "length (h l)"
      "\<lparr> vectors = h, depths = [] \<rparr>"]
  by (simp add: getDepthFromRectifiedMatches_def Let_def CHECK_def andThen_def)

lemma getDepth_fails:
  "length (h l) \<noteq> length (h r) \<Longrightarrow>
     getDepthFromRectifiedMatches h l r fx b p = Inl Size_mismatch"
  by (simp add: getDepthFromRectifiedMatches_def Let_def CHECK_def andThen_def)

lemma getDepth_at:
  assumes "length (h l) = length (h r)" and "i < length (h l)"
  shows "\<exists>s. getDepthFromRectifiedMatches h l r fx b p = Inr s \<and>
     (\<forall>q. length (vectors s q) = length (h q)) \<and> length (depths s) = length (h l) \<and>
     (\<forall>q. vectors s q ! i =
       vectors (depth_iteration (fmul binary64 fx b) p l r i
                     \<lparr> vectors = h, depths = [] \<rparr>) q ! i) \<and>
     depths s ! i =
       last (depths (depth_iteration (fmul binary64 fx b) p l r i
                       \<lparr> vectors = h, depths = [] \<rparr>))"
  using assms getDepth_returns [OF assms(1), of fx b p]
    depth_loop_invariant [of "fmul binary64 fx b" p l r "length (h l)"
      "\<lparr> vectors = h, depths = [] \<rparr>"]
    depth_loop_at [of i "length (h l)" "\<lparr> vectors = h, depths = [] \<rparr>" r
      "fmul binary64 fx b" p l]
  by simp

text \<open>A vector that the right reference does not name is the caller's after the call.\<close>

lemma getDepth_other_ref:
  assumes "getDepthFromRectifiedMatches h l r fx b p = Inr s" and "q \<noteq> r"
  shows "vectors s q = h q"
proof -
  have len: "length (h l) = length (h r)"
    using assms getDepth_fails [of h l r fx b p] by (cases "length (h l) = length (h r)") auto
  then show ?thesis
    using assms depth_loop_invariant [of "fmul binary64 fx b" p l r "length (h l)"
        "\<lparr> vectors = h, depths = [] \<rparr>"]
    by (simp add: getDepth_returns)
qed

text \<open>The pixels of every vector are the caller's after the call.\<close>

lemma getDepth_pixels:
  assumes "getDepthFromRectifiedMatches h l r fx b p = Inr s"
  shows "map snd (vectors s q) = map snd (h q)"
proof -
  have len: "length (h l) = length (h r)"
    using assms getDepth_fails [of h l r fx b p] by (cases "length (h l) = length (h r)") auto
  have s: "s = fold (depth_iteration (fmul binary64 fx b) p l r) [0..<length (h l)]
            \<lparr> vectors = h, depths = [] \<rparr>"
    using assms len by (simp add: getDepth_returns)
  have n: "length (vectors s q) = length (h q)"
    unfolding s
    using depth_loop_invariant [of "fmul binary64 fx b" p l r "length (h l)"
        "\<lparr> vectors = h, depths = [] \<rparr>"]
    by simp
  have "snd (vectors s q ! j) = snd (h q ! j)" for j
    unfolding s by (simp add: depth_loop_pixel)
  then show ?thesis
    using n by (intro nth_equalityI) simp_all
qed

subsection \<open>Evaluations\<close>

text \<open>
  The scenario of three keypoints, with \<open>fx = 500\<close>, baseline \<open>0.2\<close> and the range
  \<open>[0.1, 50]\<close>, the vectors at addresses 0 and 1. The zero disparity gives an infinite
  depth, which the finite upper bound rejects.
\<close>

lemma scenario_depths:
  "getDepthFromRectifiedMatches scenario_store 0 1 (Finite 500) (double_of 0.2)
     \<lparr> min_point_dist = double_of 0.1, max_point_dist = Finite 50 \<rparr> =
   Inr \<lparr> vectors = scenario_store
           (1 := [(VALID, Point2f (Finite 100) (Finite 50)),
                  (NO_LEFT_RECT, Point2f (Finite 3) (Finite 4)),
                  (NO_DEPTH, Point2f (Finite 70) (Finite 20))]),
         depths = [Finite 10, Finite 0, Finite 0] \<rparr>"
  unfolding getDepthFromRectifiedMatches_def Let_def example_products literals
  by (simp add: model_eval scenario_store_def fsub_def round_to_numeral example_quotients
        fdiv_def inf_of_def compare_eval)

text \<open>
  The range filter: \<open>fx = 1000\<close>, baseline \<open>0.1\<close>, range \<open>[0.5, 10]\<close>. A disparity of 400
  gives the depth \<open>0.25\<close>, which is rejected; a disparity of 50 gives the depth \<open>2.0\<close>,
  which is returned.
\<close>

lemma range_filter_example:
  "getDepthFromRectifiedMatches range_store 0 1 (Finite 1000) (double_of 0.1)
     \<lparr> min_point_dist = Finite (1 / 2), max_point_dist = Finite 10 \<rparr> =
   Inr \<lparr> vectors = range_store
           (1 := [(NO_DEPTH, Point2f (Finite 0) (Finite 20)),
                  (VALID, Point2f (Finite 10) (Finite 20))]),
         depths = [Finite 0, Finite 2] \<rparr>"
  unfolding getDepthFromRectifiedMatches_def Let_def example_products
  by (simp add: model_eval range_store_def fsub_def round_to_numeral example_quotients
        compare_eval)

text \<open>
  Rounding decides: with \<open>fx * baseline = 99999999\<close> and the coordinates \<open>10^8\<close> and 1,
  the disparity is \<open>10^8\<close> (not 99999999), the depth is below 1, and a lower bound of 1
  rejects the match.
\<close>

lemma rounded_disparity_rejected:
  "getDepthFromRectifiedMatches rounding_store 0 1 (Finite 99999999) (Finite 1)
     \<lparr> min_point_dist = Finite 1, max_point_dist = Finite 10 \<rparr> =
   Inr \<lparr> vectors = rounding_store(1 := [(NO_DEPTH, Point2f (Finite 1) (Finite 20))]),
         depths = [Finite 0] \<rparr>"
  by (simp add: model_eval rounding_store_def example_differences example_quotients
        fmul_def round_to_numeral compare_eval)

subsection \<open>Properties of a call\<close>

text \<open>
  C2. At every index whose left status is not \<open>VALID\<close>, the call returns, the right
  status after it is the left status (whatever the right status was before), and the
  depth at that index is \<open>0.0\<close>.
\<close>

theorem depth_left_not_valid:
  assumes "length (h l) = length (h r)" and "i < length (h l)"
    and "fst (h l ! i) \<noteq> VALID"
  shows "\<exists>s. getDepthFromRectifiedMatches h l r fx b p = Inr s \<and>
           fst (vectors s r ! i) = fst (h l ! i) \<and>
           fst (vectors s r ! i) = fst (vectors s l ! i) \<and>
           depths s ! i = Finite 0"
proof -
  obtain s where s: "getDepthFromRectifiedMatches h l r fx b p = Inr s"
     "\<And>q. vectors s q ! i =
       vectors (depth_iteration (fmul binary64 fx b) p l r i
                     \<lparr> vectors = h, depths = [] \<rparr>) q ! i"
     "depths s ! i =
       last (depths (depth_iteration (fmul binary64 fx b) p l r i
                       \<lparr> vectors = h, depths = [] \<rparr>))"
    using getDepth_at [OF assms(1,2)] by blast
  show ?thesis using s assms
    by (auto simp add: depth_iteration_def set_first_def push_back_def)
qed

theorem depth_left_not_valid_witness:
  "length (example_store 0) = length (example_store 1) \<and> 1 < length (example_store 0) \<and>
   fst (example_store 0 ! 1) \<noteq> VALID \<and> fst (example_store 1 ! 1) = VALID \<and>
   (\<exists>s. getDepthFromRectifiedMatches example_store 0 1 (Finite 500) (double_of 0.2)
          example_params = Inr s \<and>
        fst (vectors s 1 ! 1) = NO_LEFT_RECT \<and> depths s ! 1 = Finite 0)"
  using depth_left_not_valid
    [of example_store 0 1 1 "Finite 500" "double_of 0.2" example_params]
  by (auto simp add: example_store_def example_left_def example_right_def)

text \<open>
  C3. At every index where both statuses are \<open>VALID\<close> and the disparity, left \<open>x\<close> minus
  right \<open>x\<close>, is strictly negative, the right status becomes \<open>NO_DEPTH\<close> and the depth
  is \<open>0.0\<close>.
\<close>

theorem depth_negative_disparity:
  assumes "length (h l) = length (h r)" and "i < length (h l)"
    and "fst (h l ! i) = VALID" and "fst (h r ! i) = VALID"
    and "flt (fsub binary32 (pt_x (snd (h l ! i))) (pt_x (snd (h r ! i)))) (Finite 0)"
  shows "\<exists>s. getDepthFromRectifiedMatches h l r fx b p = Inr s \<and>
           fst (vectors s r ! i) = NO_DEPTH \<and> depths s ! i = Finite 0"
proof -
  obtain s where s: "getDepthFromRectifiedMatches h l r fx b p = Inr s"
     "\<And>q. vectors s q ! i =
       vectors (depth_iteration (fmul binary64 fx b) p l r i
                     \<lparr> vectors = h, depths = [] \<rparr>) q ! i"
     "depths s ! i =
       last (depths (depth_iteration (fmul binary64 fx b) p l r i
                       \<lparr> vectors = h, depths = [] \<rparr>))"
    using getDepth_at [OF assms(1,2)] by blast
  show ?thesis using s assms flt_not_fge [OF assms(5)]
    by (simp add: depth_iteration_def set_first_def push_back_def)
qed

theorem depth_negative_disparity_witness:
  "length (example_store 0) = length (example_store 1) \<and> 3 < length (example_store 0) \<and>
   fst (example_store 0 ! 3) = VALID \<and> fst (example_store 1 ! 3) = VALID \<and>
   flt (fsub binary32 (pt_x (snd (example_store 0 ! 3))) (pt_x (snd (example_store 1 ! 3))))
     (Finite 0) \<and>
   (\<exists>s. getDepthFromRectifiedMatches example_store 0 1 (Finite 500) (double_of 0.2)
          example_params = Inr s \<and>
        fst (vectors s 1 ! 3) = NO_DEPTH \<and> depths s ! 3 = Finite 0)"
  using depth_negative_disparity
    [of example_store 0 1 3 "Finite 500" "double_of 0.2" example_params]
  by (auto simp add: example_store_def example_left_def example_right_def fsub_def
        round_to_numeral)


text \<open>
  A NaN depth also comes from finite arguments: when \<open>fx * baseline\<close> and the disparity
  both overflow, the depth is \<open>\<infinity> / \<infinity>\<close>.
\<close>

lemma nan_depth_from_finite_inputs:
  "getDepthFromRectifiedMatches overflow_store 0 1 (Finite (2 ^ 1000)) (Finite (2 ^ 1000))
     example_params =
   Inr \<lparr> vectors = overflow_store, depths = [NaN] \<rparr>"
  unfolding getDepthFromRectifiedMatches_def Let_def example_overflow
  by (simp add: model_eval overflow_store_def example_overflow [simplified] fdiv_def
        compare_eval)



text \<open>
  C5. At every index where both statuses are \<open>VALID\<close> and the disparity is exactly 0,
  the right status is to become \<open>NO_DEPTH\<close> and the depth \<open>0.0\<close>. The source does not
  guard the zero: it tests \<^verbatim>\<open>disparity >= 0.0\<close> (its comment on the loop says the check
  is \<^verbatim>\<open>right_px.x < left_px.x\<close>), so a zero disparity is divided by, and only the range
  test can reject the quotient. With an unbounded \<open>max_point_dist\<close> the infinite depth is
  emitted and the right status stays \<open>VALID\<close>.
\<close>

theorem zero_disparity_accepted:
  "getDepthFromRectifiedMatches zero_store 0 1 (Finite 500) (double_of 0.2)
     \<lparr> min_point_dist = double_of 0.1, max_point_dist = PosInf \<rparr> =
   Inr \<lparr> vectors = zero_store, depths = [PosInf] \<rparr>"
  unfolding getDepthFromRectifiedMatches_def Let_def example_products literals
  by (simp add: model_eval zero_store_def fsub_def fdiv_def inf_of_def compare_eval)

text \<open>With \<open>fx = 0\<close> the quotient is \<open>0/0\<close>, a NaN, which no range rejects.\<close>

lemma zero_disparity_nan_accepted:
  "getDepthFromRectifiedMatches zero_store 0 1 (Finite 0) (double_of 0.2) example_params =
   Inr \<lparr> vectors = zero_store, depths = [NaN] \<rparr>"
  unfolding getDepthFromRectifiedMatches_def Let_def literals
  by (simp add: model_eval zero_store_def fsub_def fmul_def fdiv_def zero_of_def
        compare_eval)

text \<open>
  Where \<open>fx * baseline\<close> is a finite nonzero number and both bounds are finite, a zero
  disparity (of either sign) is rejected: the quotient is an infinity.
\<close>

lemma depth_zero_disparity_rejected:
  assumes "length (h l) = length (h r)" and "i < length (h l)"
    and "fst (h l ! i) = VALID" and "fst (h r ! i) = VALID"
    and "feq (fsub binary32 (pt_x (snd (h l ! i))) (pt_x (snd (h r ! i)))) (Finite 0)"
    and "fmul binary64 fx b = Finite c" and "c \<noteq> 0"
    and "min_point_dist p = Finite lo" and "max_point_dist p = Finite hi"
  shows "\<exists>s. getDepthFromRectifiedMatches h l r fx b p = Inr s \<and>
           fst (vectors s r ! i) = NO_DEPTH \<and> depths s ! i = Finite 0"
proof -
  obtain s where s: "getDepthFromRectifiedMatches h l r fx b p = Inr s"
     "\<And>q. vectors s q ! i =
       vectors (depth_iteration (fmul binary64 fx b) p l r i
                     \<lparr> vectors = h, depths = [] \<rparr>) q ! i"
     "depths s ! i =
       last (depths (depth_iteration (fmul binary64 fx b) p l r i
                       \<lparr> vectors = h, depths = [] \<rparr>))"
    using getDepth_at [OF assms(1,2)] by blast
  let ?d = "fsub binary32 (pt_x (snd (h l ! i))) (pt_x (snd (h r ! i)))"
  have z: "?d = Finite 0 \<or> ?d = NegZero"
    using assms(5) by (cases ?d) simp_all
  then have ge: "fge ?d (Finite 0)" by (auto simp add: fge_def fle_def)
  have "fdiv binary64 (Finite c) ?d = PosInf \<or> fdiv binary64 (Finite c) ?d = NegInf"
    using z assms(7) by (auto simp add: fdiv_def inf_of_def)
  then have out: "flt (fdiv binary64 (Finite c) ?d) (Finite lo) \<or>
      fgt (fdiv binary64 (Finite c) ?d) (Finite hi)"
    by (auto simp add: fgt_def)
  show ?thesis using s assms ge out
    by (simp add: depth_iteration_def set_first_def push_back_def Let_def)
qed

text \<open>
  C10. As stated, the left statuses and pixels are never modified. The two vectors are
  passed by non-const reference and the status is written through the right one: a
  call that passes one vector for both writes \<open>NO_DEPTH\<close> into it, so the left status
  changes from \<open>VALID\<close>.
\<close>

theorem aliased_call_changes_left:
  "fst (single_store 0 ! 0) = VALID \<and>
   getDepthFromRectifiedMatches single_store 0 0 (Finite 500) (double_of 0.2) example_params =
     Inr \<lparr> vectors = single_store(0 := [(NO_DEPTH, Point2f (Finite 100) (Finite 50))]),
           depths = [Finite 0] \<rparr>"
  unfolding getDepthFromRectifiedMatches_def Let_def example_products example_params_def
    literals
  by (simp add: model_eval single_store_def fsub_def fdiv_def inf_of_def compare_eval)

text \<open>
  C10, amended. A call never changes a pixel of the left vector, and it never changes
  the left vector when the two references name distinct vectors. At every index whose
  left status is \<open>VALID\<close> and whose right status is not, the right entry is left as it
  was (its failure tag is kept), the left entry too, and the depth is \<open>0.0\<close>.
\<close>

theorem depth_right_not_valid:
  "(\<forall>s. getDepthFromRectifiedMatches h l r fx b p = Inr s \<longrightarrow>
        map snd (vectors s l) = map snd (h l) \<and> (l \<noteq> r \<longrightarrow> vectors s l = h l)) \<and>
   (length (h l) = length (h r) \<and> i < length (h l) \<and>
    fst (h l ! i) = VALID \<and> fst (h r ! i) \<noteq> VALID \<longrightarrow>
      (\<exists>t. getDepthFromRectifiedMatches h l r fx b p = Inr t \<and>
           vectors t r ! i = h r ! i \<and> vectors t l ! i = h l ! i \<and> depths t ! i = Finite 0))"
proof (intro conjI impI allI)
  fix s
  assume "getDepthFromRectifiedMatches h l r fx b p = Inr s"
  then show "map snd (vectors s l) = map snd (h l)" by (rule getDepth_pixels)
next
  fix s
  assume "getDepthFromRectifiedMatches h l r fx b p = Inr s" and "l \<noteq> r"
  then show "vectors s l = h l" by (rule getDepth_other_ref)
next
  assume a: "length (h l) = length (h r) \<and> i < length (h l) \<and>
    fst (h l ! i) = VALID \<and> fst (h r ! i) \<noteq> VALID"
  then obtain t where t: "getDepthFromRectifiedMatches h l r fx b p = Inr t"
     "\<And>q. vectors t q ! i =
       vectors (depth_iteration (fmul binary64 fx b) p l r i
                     \<lparr> vectors = h, depths = [] \<rparr>) q ! i"
     "depths t ! i =
       last (depths (depth_iteration (fmul binary64 fx b) p l r i
                       \<lparr> vectors = h, depths = [] \<rparr>))"
    using getDepth_at [of h l r i fx b p] by blast
  show "\<exists>t. getDepthFromRectifiedMatches h l r fx b p = Inr t \<and>
           vectors t r ! i = h r ! i \<and> vectors t l ! i = h l ! i \<and> depths t ! i = Finite 0"
    using t a by (simp add: depth_iteration_def set_first_def push_back_def)
qed

theorem depth_right_not_valid_witness:
  "(0::nat) \<noteq> 1 \<and>
   length (example_store 0) = length (example_store 1) \<and> 4 < length (example_store 0) \<and>
   fst (example_store 0 ! 4) = VALID \<and> fst (example_store 1 ! 4) \<noteq> VALID \<and>
   (\<exists>t. getDepthFromRectifiedMatches example_store 0 1 (Finite 500) (double_of 0.2)
          example_params = Inr t \<and> vectors t 0 = example_left \<and>
        fst (vectors t 1 ! 4) = FAILED_ARUN \<and> depths t ! 4 = Finite 0)"
proof -
  have pre: "length (example_store 0) = length (example_store 1)"
    "4 < length (example_store 0)"
    "fst (example_store 0 ! 4) = VALID" "fst (example_store 1 ! 4) \<noteq> VALID"
    "example_store 0 = example_left" "fst (example_store 1 ! 4) = FAILED_ARUN"
    by (simp_all add: example_store_def example_left_def example_right_def)
  note inst = depth_right_not_valid
    [of example_store 0 1 "Finite 500" "double_of 0.2" example_params 4]
  obtain t where t: "getDepthFromRectifiedMatches example_store 0 1 (Finite 500)
      (double_of 0.2) example_params = Inr t"
    "vectors t 1 ! 4 = example_store 1 ! 4" "depths t ! 4 = Finite 0"
    using inst pre by blast
  have "vectors t 0 = example_store 0"
    using inst t(1) by simp
  then show ?thesis using pre t by auto
qed

section \<open>The measurement assembler\<close>

text \<open>
  An iteration that returns has appended nothing for the landmark id \<open>-1\<close>, and one
  observation otherwise.
\<close>

lemma measurement_iteration_result:
  assumes "measurement_iteration sf use i out = Inr out'"
  shows "out' = out @ map (\<lambda>i. (landmarks (left_frame sf) ! i,
                    StereoPoint2 (pt_x (snd (left_keypoints_rectified sf ! i)))
                      (if use \<and> fst (right_keypoints_rectified sf ! i) = VALID
                       then pt_x (snd (right_keypoints_rectified sf ! i)) else NaN)
                      (pt_y (snd (left_keypoints_rectified sf ! i)))))
                 (filter (\<lambda>i. landmarks (left_frame sf) ! i \<noteq> - 1) [i])"
  using assms
  by (auto simp add: measurement_iteration_def vector_at_def push_back_def Let_def
           split: if_splits sum.splits)

lemma measurement_loop_result:
  assumes "for_each (measurement_iteration sf use) js out0 = Inr out"
  shows "out = out0 @ map (\<lambda>i. (landmarks (left_frame sf) ! i,
                    StereoPoint2 (pt_x (snd (left_keypoints_rectified sf ! i)))
                      (if use \<and> fst (right_keypoints_rectified sf ! i) = VALID
                       then pt_x (snd (right_keypoints_rectified sf ! i)) else NaN)
                      (pt_y (snd (left_keypoints_rectified sf ! i)))))
                 (filter (\<lambda>i. landmarks (left_frame sf) ! i \<noteq> - 1) js)"
  using assms
proof (induction js arbitrary: out0)
  case Nil
  then show ?case by simp
next
  case (Cons j js)
  from Cons.prems obtain out1 where
    step: "measurement_iteration sf use j out0 = Inr out1" and
    rest: "for_each (measurement_iteration sf use) js out1 = Inr out"
    by (auto split: sum.splits)
  show ?case
    using Cons.IH [OF rest] measurement_iteration_result [OF step] by simp
qed

text \<open>With every index in range of the three vectors, no \<^verbatim>\<open>at\<close> throws.\<close>

lemma measurement_iteration_succeeds:
  assumes "i < length (landmarks (left_frame sf))"
    and "i < length (left_keypoints_rectified sf)"
    and "i < length (right_keypoints_rectified sf)"
  shows "\<exists>out'. measurement_iteration sf use i out = Inr out'"
  using assms by (simp add: measurement_iteration_def vector_at_def Let_def)

lemma measurement_loop_succeeds:
  assumes "\<forall>j\<in>set js. j < length (landmarks (left_frame sf)) \<and>
             j < length (left_keypoints_rectified sf) \<and>
             j < length (right_keypoints_rectified sf)"
  shows "\<exists>out. for_each (measurement_iteration sf use) js out0 = Inr out"
  using assms
proof (induction js arbitrary: out0)
  case Nil
  then show ?case by simp
next
  case (Cons j js)
  then obtain out1 where "measurement_iteration sf use j out0 = Inr out1"
    using measurement_iteration_succeeds [of j sf use out0] by auto
  then show ?case using Cons by simp
qed

text \<open>The function on a container that is not null, check by check.\<close>

lemma getSmart_Some:
  "getSmartStereoMeasurements sf (Some old) use =
     (if \<not> is_rectified sf then Inl Not_rectified
      else case checkStereoFrame sf of
             Inl e \<Rightarrow> Inl e
           | Inr _ \<Rightarrow> for_each (measurement_iteration sf use)
                        [0..<length (landmarks (left_frame sf))] [])"
  by (simp add: getSmartStereoMeasurements_def clear_def CHECK_def andThen_def Let_def)

lemma example_frame_measurements:
  "getSmartStereoMeasurements example_frame (Some old) True =
     Inr [(7, StereoPoint2 (Finite 110) (Finite 100) (Finite 50)),
          (9, StereoPoint2 (Finite 70) NaN (Finite 20))]"
  by (simp add: getSmart_Some example_frame_checks)
     (simp add: example_frame_def measurement_iteration_def vector_at_def push_back_def upt_rec)

text \<open>
  C6. The output is, in index order, one entry for each index \<open>i\<close> whose landmark id is
  not \<open>-1\<close>: the id, with \<open>uL\<close> and \<open>v\<close> the left rectified pixel at \<open>i\<close>, and \<open>uR\<close> the
  right rectified \<open>x\<close> at \<open>i\<close> when \<open>use_stereo_measurements\<close> holds and the right
  rectified status at \<open>i\<close> is \<open>VALID\<close>, NaN in every other case. Indices with the id
  \<open>-1\<close> contribute nothing. The call returns on a rectified frame that passes the
  checker and has no more landmark ids than keypoints.
\<close>

theorem measurements_content:
  "(getSmartStereoMeasurements sf (Some old) use = Inr out \<longrightarrow>
      out = map (\<lambda>i. (landmarks (left_frame sf) ! i,
                    StereoPoint2 (pt_x (snd (left_keypoints_rectified sf ! i)))
                      (if use \<and> fst (right_keypoints_rectified sf ! i) = VALID
                       then pt_x (snd (right_keypoints_rectified sf ! i)) else NaN)
                      (pt_y (snd (left_keypoints_rectified sf ! i)))))
              (filter (\<lambda>i. landmarks (left_frame sf) ! i \<noteq> - 1)
                 [0..<length (landmarks (left_frame sf))])) \<and>
   (is_rectified sf \<and> checkStereoFrame sf = Inr () \<and>
    length (landmarks (left_frame sf)) \<le> length (keypoints (left_frame sf)) \<longrightarrow>
      (\<exists>out. getSmartStereoMeasurements sf (Some old) use = Inr out))"
proof (intro conjI impI)
  assume r: "getSmartStereoMeasurements sf (Some old) use = Inr out"
  then have "for_each (measurement_iteration sf use)
      [0..<length (landmarks (left_frame sf))] [] = Inr out"
    by (simp add: getSmart_Some split: if_splits sum.splits)
  from measurement_loop_result [OF this]
  show "out = map (\<lambda>i. (landmarks (left_frame sf) ! i,
                    StereoPoint2 (pt_x (snd (left_keypoints_rectified sf ! i)))
                      (if use \<and> fst (right_keypoints_rectified sf ! i) = VALID
                       then pt_x (snd (right_keypoints_rectified sf ! i)) else NaN)
                      (pt_y (snd (left_keypoints_rectified sf ! i)))))
              (filter (\<lambda>i. landmarks (left_frame sf) ! i \<noteq> - 1)
                 [0..<length (landmarks (left_frame sf))])"
    by simp
next
  assume a: "is_rectified sf \<and> checkStereoFrame sf = Inr () \<and>
    length (landmarks (left_frame sf)) \<le> length (keypoints (left_frame sf))"
  then have "\<forall>j\<in>set [0..<length (landmarks (left_frame sf))].
      j < length (landmarks (left_frame sf)) \<and>
      j < length (left_keypoints_rectified sf) \<and>
      j < length (right_keypoints_rectified sf)"
    by (simp add: checkStereoFrame_passes)
  from measurement_loop_succeeds [OF this, of use "[]"] a
  show "\<exists>out. getSmartStereoMeasurements sf (Some old) use = Inr out"
    by (simp add: getSmart_Some)
qed

theorem measurements_content_witness:
  "is_rectified example_frame \<and> checkStereoFrame example_frame = Inr () \<and>
   length (landmarks (left_frame example_frame)) \<le>
     length (keypoints (left_frame example_frame)) \<and>
   getSmartStereoMeasurements example_frame (Some []) True =
     Inr [(7, StereoPoint2 (Finite 110) (Finite 100) (Finite 50)),
          (9, StereoPoint2 (Finite 70) NaN (Finite 20))] \<and>
   getSmartStereoMeasurements example_frame (Some []) False =
     Inr [(7, StereoPoint2 (Finite 110) NaN (Finite 50)),
          (9, StereoPoint2 (Finite 70) NaN (Finite 20))]"
proof -
  have pre: "is_rectified example_frame"
    "length (landmarks (left_frame example_frame)) \<le>
       length (keypoints (left_frame example_frame))"
    by (simp_all add: example_frame_def)
  obtain out1 where out1: "getSmartStereoMeasurements example_frame (Some []) True = Inr out1"
    using measurements_content [of example_frame "[]" True] pre example_frame_checks by blast
  obtain out2 where out2: "getSmartStereoMeasurements example_frame (Some []) False = Inr out2"
    using measurements_content [of example_frame "[]" False] pre example_frame_checks by blast
  have "out1 = [(7, StereoPoint2 (Finite 110) (Finite 100) (Finite 50)),
          (9, StereoPoint2 (Finite 70) NaN (Finite 20))]"
    using measurements_content [of example_frame "[]" True out1] out1
    by (simp add: example_frame_def upt_rec)
  moreover have "out2 = [(7, StereoPoint2 (Finite 110) NaN (Finite 50)),
          (9, StereoPoint2 (Finite 70) NaN (Finite 20))]"
    using measurements_content [of example_frame "[]" False out2] out2
    by (simp add: example_frame_def upt_rec)
  ultimately show ?thesis using pre example_frame_checks out1 out2 by simp
qed

text \<open>
  C7. The assembler fails fatally on a frame that is not rectified. It runs the
  checker before it produces anything: a failure of the checker is the failure of the
  call, and a call that returns was made on a rectified frame that passes the checker.
  The container is cleared first: what it held before the call has no effect on the
  result.
\<close>

theorem measurements_guarded:
  "(\<not> is_rectified sf \<longrightarrow> (\<exists>e. getSmartStereoMeasurements sf smart use = Inl e)) \<and>
   (\<not> is_rectified sf \<longrightarrow>
      getSmartStereoMeasurements sf (Some old) use = Inl Not_rectified) \<and>
   (is_rectified sf \<and> checkStereoFrame sf = Inl e \<longrightarrow>
      getSmartStereoMeasurements sf (Some old) use = Inl e) \<and>
   (getSmartStereoMeasurements sf smart use = Inr out \<longrightarrow>
      is_rectified sf \<and> checkStereoFrame sf = Inr ()) \<and>
   getSmartStereoMeasurements sf (Some old) use =
     getSmartStereoMeasurements sf (Some []) use"
proof -
  have "getSmartStereoMeasurements sf smart use = Inr out \<longrightarrow>
      is_rectified sf \<and> checkStereoFrame sf = Inr ()"
  proof (cases smart)
    case None
    then show ?thesis by (simp add: getSmartStereoMeasurements_def)
  next
    case (Some a)
    then show ?thesis
      using fatal_or_done [of "checkStereoFrame sf"]
      by (auto simp add: getSmart_Some split: if_splits)
  qed
  moreover have "\<not> is_rectified sf \<longrightarrow>
      (\<exists>e. getSmartStereoMeasurements sf smart use = Inl e)"
  proof (cases smart)
    case None
    then show ?thesis by (simp add: getSmartStereoMeasurements_def)
  next
    case (Some a)
    then show ?thesis by (simp add: getSmart_Some)
  qed
  ultimately show ?thesis by (simp add: getSmart_Some)
qed

theorem measurements_guarded_witness:
  "\<not> is_rectified (example_frame\<lparr> is_rectified := False \<rparr>) \<and>
   getSmartStereoMeasurements (example_frame\<lparr> is_rectified := False \<rparr>) (Some []) True =
     Inl Not_rectified \<and>
   is_rectified example_frame_positive \<and>
   checkStereoFrame example_frame_positive = Inl (Positive_for_nonvalid 1) \<and>
   getSmartStereoMeasurements example_frame_positive (Some []) True =
     Inl (Positive_for_nonvalid 1) \<and>
   is_rectified example_frame \<and> checkStereoFrame example_frame = Inr () \<and>
   getSmartStereoMeasurements example_frame
       (Some [(3, StereoPoint2 (Finite 1) (Finite 2) (Finite 3))]) True =
     Inr [(7, StereoPoint2 (Finite 110) (Finite 100) (Finite 50)),
          (9, StereoPoint2 (Finite 70) NaN (Finite 20))]"
proof -
  have a: "\<not> is_rectified (example_frame\<lparr> is_rectified := False \<rparr>)" by simp
  have b: "is_rectified example_frame_positive" "is_rectified example_frame"
    by (simp_all add: example_frame_positive_def example_frame_def)
  have "getSmartStereoMeasurements (example_frame\<lparr> is_rectified := False \<rparr>) (Some []) True =
      Inl Not_rectified"
    using a measurements_guarded [of "example_frame\<lparr> is_rectified := False \<rparr>" "Some []" True
        "[]" "Not_rectified" "[]"]
    by blast
  moreover have "getSmartStereoMeasurements example_frame_positive (Some []) True =
      Inl (Positive_for_nonvalid 1)"
    using b(1) example_frame_positive_fails
      measurements_guarded [of example_frame_positive "Some []" True "[]"
        "Positive_for_nonvalid 1" "[]"]
    by blast
  moreover have "getSmartStereoMeasurements example_frame
       (Some [(3, StereoPoint2 (Finite 1) (Finite 2) (Finite 3))]) True =
     getSmartStereoMeasurements example_frame (Some []) True"
    using measurements_guarded [of example_frame "Some []" True
        "[(3, StereoPoint2 (Finite 1) (Finite 2) (Finite 3))]" "Not_rectified" "[]"]
    by blast
  ultimately show ?thesis
    using a b example_frame_positive_fails example_frame_checks
      example_frame_measurements [of "[]"]
    by simp
qed

text \<open>
  C8. A second run on the same frame, into the container the first run filled (or into
  any other), returns the same sequence; the method is \<^verbatim>\<open>const\<close>, so the frame is the
  same. No entry of the output has the landmark id \<open>-1\<close>.
\<close>

theorem measurements_idempotent:
  assumes "getSmartStereoMeasurements sf (Some old) use = Inr out"
  shows "getSmartStereoMeasurements sf (Some out) use = Inr out \<and>
         getSmartStereoMeasurements sf (Some old') use = Inr out \<and>
         (\<forall>m\<in>set out. fst m \<noteq> - 1)"
proof -
  have "for_each (measurement_iteration sf use)
      [0..<length (landmarks (left_frame sf))] [] = Inr out"
    using assms by (simp add: getSmart_Some split: if_splits sum.splits)
  from measurement_loop_result [OF this]
  have "\<forall>m\<in>set out. fst m \<noteq> - 1" by auto
  then show ?thesis using assms by (simp add: getSmart_Some)
qed

theorem measurements_idempotent_witness:
  "getSmartStereoMeasurements example_frame (Some []) True =
     Inr [(7, StereoPoint2 (Finite 110) (Finite 100) (Finite 50)),
          (9, StereoPoint2 (Finite 70) NaN (Finite 20))] \<and>
   getSmartStereoMeasurements example_frame
       (Some [(7, StereoPoint2 (Finite 110) (Finite 100) (Finite 50)),
              (9, StereoPoint2 (Finite 70) NaN (Finite 20))]) True =
     Inr [(7, StereoPoint2 (Finite 110) (Finite 100) (Finite 50)),
          (9, StereoPoint2 (Finite 70) NaN (Finite 20))] \<and>
   landmarks (left_frame example_frame) ! 1 = - 1 \<and>
   - 1 \<notin> fst ` set [(7 :: int, StereoPoint2 (Finite 110) (Finite 100) (Finite 50)),
                     (9, StereoPoint2 (Finite 70) NaN (Finite 20))]"
  using measurements_idempotent [OF example_frame_measurements [of "[]"]]
  by (simp add: example_frame_def)

end
